theory Spec2Isabelle
  imports Complex_Main
begin

section \<open>Conventions\<close>

text \<open>
  The development embeds three modules of the repository:
  \<^item> \<^verbatim>\<open>src/utils/calculations.py\<close> (class \<^verbatim>\<open>PositionCalculator\<close>),
  \<^item> \<^verbatim>\<open>src/utils/monitoring.py\<close> (class \<^verbatim>\<open>PositionMonitor\<close>),
  \<^item> \<^verbatim>\<open>src/strategies/delta_neutral_executor.py\<close> (class \<^verbatim>\<open>DeltaNeutralExecutor\<close>).

  A Python \<^verbatim>\<open>float\<close> is read as an exact real number: rounding and NaN are not
  modelled. The one infinite value the code itself produces (\<^verbatim>\<open>float('inf')\<close> in
  \<^verbatim>\<open>is_near_liquidation\<close>) is a constructor of its own. A Python \<^verbatim>\<open>int\<close> is an
  \<^typ>\<open>int\<close>. Every exception the embedded code can raise is a value of \<open>py_error\<close>.
\<close>

datatype py_error =
  KeyError | ValueError | TypeError | ZeroDivisionError | CollaboratorError

text \<open>\<^verbatim>\<open>int(x)\<close> on a float truncates towards zero.\<close>

definition py_int :: "real \<Rightarrow> int" where
  "py_int x = (if 0 \<le> x then \<lfloor>x\<rfloor> else \<lceil>x\<rceil>)"

text \<open>
  \<^verbatim>\<open>x ** n\<close> for a float \<open>x\<close> and an int \<open>n\<close>: a negative exponent of zero raises
  \<^verbatim>\<open>ZeroDivisionError\<close>.
\<close>

definition py_pow :: "real \<Rightarrow> int \<Rightarrow> py_error + real" where
  "py_pow x n =
     (if 0 \<le> n then Inr (x ^ nat n)
      else if x = 0 then Inl ZeroDivisionError
      else Inr (1 / x ^ nat (- n)))"

text \<open>\<^verbatim>\<open>a / b\<close> on floats raises on a zero divisor.\<close>

definition py_div :: "real \<Rightarrow> real \<Rightarrow> py_error + real" where
  "py_div a b = (if b = 0 then Inl ZeroDivisionError else Inr (a / b))"

text \<open>A parameter with a default value: \<open>None\<close> is a call that does not pass it.\<close>

definition with_default :: "'a option \<Rightarrow> 'a \<Rightarrow> 'a" where
  "with_default arg d = (case arg of None \<Rightarrow> d | Some v \<Rightarrow> v)"

text \<open>
  \<^verbatim>\<open>round(x, ndigits)\<close>: to the nearest multiple of \<open>10 ^ (- ndigits)\<close>, a tie going to
  the even one.
\<close>

definition round_half_even :: "real \<Rightarrow> int" where
  "round_half_even x =
     (let f = \<lfloor>x\<rfloor>; r = x - of_int f
      in if r < 1 / 2 then f
         else if 1 / 2 < r then f + 1
         else if even f then f else f + 1)"

definition py_round :: "real \<Rightarrow> nat \<Rightarrow> real" where
  "py_round x ndigits = of_int (round_half_even (x * 10 ^ ndigits)) / 10 ^ ndigits"

text \<open>A float that may be \<^verbatim>\<open>float('inf')\<close>, and the comparison \<^verbatim>\<open><\<close> with a finite float.\<close>

datatype pyfloat = Fin real | PosInf

fun pyfloat_less :: "pyfloat \<Rightarrow> real \<Rightarrow> bool" where
  "pyfloat_less (Fin x) w = (x < w)"
| "pyfloat_less PosInf w = False"

section \<open>PositionCalculator (src/utils/calculations.py)\<close>

text \<open>
  \<^verbatim>\<open>calculate_apy\<close>, lines 35-65. The body of the \<^verbatim>\<open>try\<close> is \<open>calculate_apy_body\<close>;
  the \<^verbatim>\<open>except Exception\<close> arm returns \<^verbatim>\<open>0.0\<close>.
\<close>

definition calculate_apy_body :: "real \<Rightarrow> int \<Rightarrow> bool \<Rightarrow> py_error + real" where
  "calculate_apy_body rate payments_per_year compound =
     (if compound then
        (let annual_rate = rate * of_int payments_per_year in
         case py_div annual_rate (of_int payments_per_year) of
           Inl e \<Rightarrow> Inl e
         | Inr q \<Rightarrow>
             (case py_pow (1 + q) payments_per_year of
                Inl e \<Rightarrow> Inl e
              | Inr p \<Rightarrow> Inr ((p - 1) * 100)))
      else
        (let annual_yield = rate * of_int payments_per_year
         in Inr (annual_yield * 100)))"

definition calculate_apy :: "real \<Rightarrow> int \<Rightarrow> bool \<Rightarrow> real" where
  "calculate_apy rate payments_per_year compound =
     (case calculate_apy_body rate payments_per_year compound of
        Inl e \<Rightarrow> 0
      | Inr y \<Rightarrow> y)"

text \<open>\<^verbatim>\<open>calculate_maintenance_margin\<close>, lines 69-74: \<^verbatim>\<open>(1 / max_leverage) * 0.5\<close>.\<close>

definition calculate_maintenance_margin :: "int \<Rightarrow> py_error + real" where
  "calculate_maintenance_margin max_leverage =
     (case py_div 1 (of_int max_leverage) of
        Inl e \<Rightarrow> Inl e
      | Inr q \<Rightarrow> Inr (q * 0.5))"

text \<open>\<^verbatim>\<open>calculate_liquidation_threshold\<close>, lines 77-86.\<close>

definition calculate_liquidation_threshold :: "real \<Rightarrow> int \<Rightarrow> py_error + real" where
  "calculate_liquidation_threshold total_open_position_usd max_leverage =
     (case calculate_maintenance_margin max_leverage of
        Inl e \<Rightarrow> Inl e
      | Inr maintenance_margin \<Rightarrow> Inr (maintenance_margin * total_open_position_usd))"

text \<open>The dictionary returned by \<^verbatim>\<open>is_near_liquidation\<close>, lines 116-122.\<close>

record risk_metrics =
  is_near :: bool
  maintenance_margin :: real
  liquidation_threshold :: real
  margin_buffer :: real
  buffer_percentage :: pyfloat

text \<open>
  \<^verbatim>\<open>is_near_liquidation\<close>, lines 89-122. The parameter \<^verbatim>\<open>warning_threshold_pct\<close> has
  the default 10 (line 93): \<open>None\<close> is a call that leaves it out.
\<close>

definition is_near_liquidation ::
  "real \<Rightarrow> real \<Rightarrow> int \<Rightarrow> real option \<Rightarrow> py_error + risk_metrics" where
  "is_near_liquidation account_value total_open_position_usd max_leverage warning_threshold_pct =
     (case calculate_maintenance_margin max_leverage of
        Inl e \<Rightarrow> Inl e
      | Inr mm \<Rightarrow>
          (case calculate_liquidation_threshold total_open_position_usd max_leverage of
             Inl e \<Rightarrow> Inl e
           | Inr lt \<Rightarrow>
               (let mb = account_value - lt;
                    bp = (if lt > 0 then Fin (mb / lt * 100) else PosInf)
                in Inr \<lparr> is_near = pyfloat_less bp (with_default warning_threshold_pct 10),
                         maintenance_margin = mm,
                         liquidation_threshold = lt,
                         margin_buffer = mb,
                         buffer_percentage = bp \<rparr>)))"


section \<open>PositionMonitor (src/utils/monitoring.py)\<close>

subsection \<open>The venue's messages\<close>

text \<open>
  The messages are JSON dictionaries whose numbers arrive as strings. A key the code
  reads is a \<open>field\<close>: the key is missing (\<open>Absent\<close>), it is there but
  \<^verbatim>\<open>float(...)\<close> or \<^verbatim>\<open>int(...)\<close> rejects its value (\<open>Unparsable\<close>), or it holds a number.
  \<open>required\<close> is the read \<^verbatim>\<open>float(d[key])\<close>, \<open>optional\<close> is \<^verbatim>\<open>float(d.get(key, default))\<close>.
\<close>

datatype 'a field = Absent | Unparsable | Given 'a

definition required :: "'a field \<Rightarrow> py_error + 'a" where
  "required f = (case f of Absent \<Rightarrow> Inl KeyError | Unparsable \<Rightarrow> Inl ValueError | Given v \<Rightarrow> Inr v)"

definition optional :: "'a field \<Rightarrow> 'a \<Rightarrow> py_error + 'a" where
  "optional f d = (case f of Absent \<Rightarrow> Inr d | Unparsable \<Rightarrow> Inl ValueError | Given v \<Rightarrow> Inr v)"

text \<open>Sequencing of two computations that may raise: the first exception wins.\<close>

definition and_then :: "py_error + 'a \<Rightarrow> ('a \<Rightarrow> py_error + 'b) \<Rightarrow> py_error + 'b" where
  "and_then r f = (case r of Inl e \<Rightarrow> Inl e | Inr v \<Rightarrow> f v)"

text \<open>
  The dictionary \<^verbatim>\<open>position["position"]\<close>, with the keys \<^verbatim>\<open>process_position_data\<close> reads.
  \<open>pos_coin\<close> is \<^verbatim>\<open>pos.get("coin")\<close> (\<^verbatim>\<open>None\<close> when missing); \<open>liquidationPx\<close> holds
  \<open>None\<close> for a falsy value (\<^verbatim>\<open>null\<close>); \<open>leverage_value\<close> is \<^verbatim>\<open>pos["leverage"]["value"]\<close>
  and the three \<open>cumFunding\<close> fields are the keys of \<^verbatim>\<open>pos["cumFunding"]\<close>.
\<close>

record raw_position =
  pos_coin :: "string option"
  szi :: "real field"
  positionValue :: "real field"
  entryPx :: "real field"
  maxLeverage :: "int field"
  liquidationPx :: "real option field"
  leverage_value :: "real field"
  unrealizedPnl :: "real field"
  cumFunding_allTime :: "real field"
  cumFunding_sinceOpen :: "real field"
  cumFunding_sinceChange :: "real field"

text \<open>
  \<^verbatim>\<open>clearinghouseState\<close>: each entry of \<^verbatim>\<open>assetPositions\<close> is \<^verbatim>\<open>position.get("position")\<close>,
  \<open>None\<close> when the key is missing or its value is falsy; \<open>accountValue\<close> is
  \<^verbatim>\<open>ch_state["marginSummary"]["accountValue"]\<close>.
\<close>

record clearinghouse_state =
  assetPositions :: "raw_position option list"
  accountValue :: "real field"

text \<open>
  A \<^verbatim>\<open>webData2\<close> message: \<open>clearinghouseState\<close> is \<open>None\<close> when the key is missing or
  its value is falsy (so the empty message has \<open>None\<close> here).
\<close>

record web_data =
  clearinghouseState :: "clearinghouse_state option"

text \<open>An \<^verbatim>\<open>activeAssetCtx\<close> message: \<^verbatim>\<open>data["coin"]\<close>, \<^verbatim>\<open>data["ctx"]["funding"]\<close>, \<^verbatim>\<open>data["ctx"]["markPx"]\<close>.\<close>

record asset_ctx_msg =
  msg_coin :: "string field"
  msg_funding :: "real field"
  msg_markPx :: "real field"

subsection \<open>The monitor's state\<close>

text \<open>An entry of \<^verbatim>\<open>self.asset_contexts\<close> (lines 48-51).\<close>

record asset_ctx =
  ctx_funding :: real
  ctx_markPx :: real

text \<open>The dictionary \<^verbatim>\<open>funding_info\<close> (lines 128-134).\<close>

record funding_info =
  allTime :: real
  sinceOpen :: real
  sinceChange :: real
  currentRate :: real
  projectedApy :: real

text \<open>The dataclass \<^verbatim>\<open>PositionInfo\<close> (lines 14-30); its field \<^verbatim>\<open>size\<close> is \<open>size_pos\<close> here.\<close>

record PositionInfo =
  coin :: "string option"
  position_usd :: real
  notional_usd :: real
  max_leverage :: int
  account_value :: real
  liquidation_price :: real
  entry_price :: real
  size_pos :: real
  leverage :: int
  unrealized_pnl :: real
  funding :: funding_info
  risk :: risk_metrics
  funding_apy :: real
  current_funding_rate :: real
  current_mark_price :: real

text \<open>
  The attributes of \<^verbatim>\<open>PositionMonitor\<close> that the embedded methods read and write
  (lines 37-39). \<open>latest_state\<close> is \<open>None\<close> before the first message. A key of
  \<open>positions\<close> is \<^verbatim>\<open>pos.get("coin")\<close>, which may be \<^verbatim>\<open>None\<close>.
\<close>

record monitor =
  latest_state :: "web_data option"
  asset_contexts :: "string \<rightharpoonup> asset_ctx"
  positions :: "string option \<rightharpoonup> PositionInfo"

definition init_monitor :: monitor where
  "init_monitor = \<lparr> latest_state = None, asset_contexts = Map.empty, positions = Map.empty \<rparr>"

text \<open>\<^verbatim>\<open>update_state\<close>, lines 41-43.\<close>

definition update_state :: "monitor \<Rightarrow> web_data \<Rightarrow> monitor" where
  "update_state m msg = m\<lparr> latest_state := Some msg \<rparr>"

text \<open>
  \<^verbatim>\<open>update_asset_context\<close>, lines 45-51. An exception leaves the dictionary as it was:
  the right-hand side is evaluated before the assignment.
\<close>

definition update_asset_context :: "monitor \<Rightarrow> asset_ctx_msg \<Rightarrow> py_error option \<times> monitor" where
  "update_asset_context m data =
     (case and_then (required (msg_coin data)) (\<lambda>c.
           and_then (required (msg_funding data)) (\<lambda>f.
           and_then (required (msg_markPx data)) (\<lambda>p.
           Inr (c, \<lparr> ctx_funding = f, ctx_markPx = p \<rparr>)))) of
        Inl e \<Rightarrow> (Some e, m)
      | Inr (c, ctx) \<Rightarrow> (None, m\<lparr> asset_contexts := (asset_contexts m)(c \<mapsto> ctx) \<rparr>))"

text \<open>\<^verbatim>\<open>get_funding_rate\<close> and \<^verbatim>\<open>get_mark_price\<close>, lines 53-63.\<close>

definition get_funding_rate :: "monitor \<Rightarrow> string option \<Rightarrow> real" where
  "get_funding_rate m c =
     (case c of None \<Rightarrow> 0
      | Some k \<Rightarrow> (case asset_contexts m k of None \<Rightarrow> 0 | Some ctx \<Rightarrow> ctx_funding ctx))"

definition get_mark_price :: "monitor \<Rightarrow> string option \<Rightarrow> real" where
  "get_mark_price m c =
     (case c of None \<Rightarrow> 0
      | Some k \<Rightarrow> (case asset_contexts m k of None \<Rightarrow> 0 | Some ctx \<Rightarrow> ctx_markPx ctx))"

subsection \<open>process_position_data\<close>

text \<open>
  The body of the \<^verbatim>\<open>for\<close> loop from line 85 on, for one truthy \<^verbatim>\<open>pos\<close>: \<open>Inr None\<close> is
  the \<^verbatim>\<open>continue\<close> of line 90, \<open>Inr (Some info)\<close> is the \<^verbatim>\<open>PositionInfo\<close> stored at line 137,
  \<open>Inl e\<close> is an exception, which nothing in the method catches. The reads happen in
  the order of the source.
\<close>

definition process_position ::
  "monitor \<Rightarrow> clearinghouse_state \<Rightarrow> raw_position \<Rightarrow> py_error + PositionInfo option" where
  "process_position m ch_state pos =
     (let c = pos_coin pos in
      and_then (optional (szi pos) 0) (\<lambda>size.
      if size = 0 then Inr None
      else
        (let current_funding_rate = get_funding_rate m c;
             mark_price = get_mark_price m c;
             adjusted_funding_rate =
               (if size > 0 then - current_funding_rate else current_funding_rate);
             apy = calculate_apy adjusted_funding_rate 8760 False
         in
         and_then (required (positionValue pos)) (\<lambda>position_usd'.
         and_then (required (entryPx pos)) (\<lambda>entry.
         and_then (required (maxLeverage pos)) (\<lambda>max_leverage'.
         and_then (required (accountValue ch_state)) (\<lambda>account_value'.
         and_then (required (liquidationPx pos)) (\<lambda>lp.
         and_then (required (leverage_value pos)) (\<lambda>lv.
         and_then (required (unrealizedPnl pos)) (\<lambda>unrealized_pnl'.
         and_then (is_near_liquidation account_value' position_usd' max_leverage' (Some 10)) (\<lambda>risk_metrics'.
         and_then (required (cumFunding_sinceOpen pos)) (\<lambda>since_open_funding.
         and_then (required (cumFunding_allTime pos)) (\<lambda>all_time.
         and_then (required (cumFunding_sinceChange pos)) (\<lambda>since_change.
         (let adjusted_since_open = - since_open_funding;
              funding_info' = \<lparr> allTime = all_time,
                                 sinceOpen = adjusted_since_open,
                                 sinceChange = since_change,
                                 currentRate = adjusted_funding_rate,
                                 projectedApy = apy \<rparr>
          in Inr (Some
               \<lparr> coin = c,
                 position_usd = position_usd',
                 notional_usd = size * entry,
                 max_leverage = max_leverage',
                 account_value = account_value',
                 liquidation_price = (case lp of None \<Rightarrow> 0 | Some v \<Rightarrow> v),
                 entry_price = entry,
                 size_pos = size,
                 leverage = py_int lv,
                 unrealized_pnl = unrealized_pnl',
                 funding = funding_info',
                 risk = risk_metrics',
                 funding_apy = apy,
                 current_funding_rate = adjusted_funding_rate,
                 current_mark_price = mark_price \<rparr>))))))))))))))))"

text \<open>
  The \<^verbatim>\<open>for\<close> loop of lines 80-153 over \<^verbatim>\<open>assetPositions\<close>: an entry without a truthy
  \<^verbatim>\<open>position\<close> is skipped (line 83), a stored position replaces an earlier one of the
  same coin, and an exception ends the loop with the positions stored so far.
\<close>

fun process_loop ::
  "monitor \<Rightarrow> clearinghouse_state \<Rightarrow> raw_position option list \<Rightarrow> py_error option \<times> monitor" where
  "process_loop m ch_state [] = (None, m)"
| "process_loop m ch_state (None # rest) = process_loop m ch_state rest"
| "process_loop m ch_state (Some pos # rest) =
     (case process_position m ch_state pos of
        Inl e \<Rightarrow> (Some e, m)
      | Inr None \<Rightarrow> process_loop m ch_state rest
      | Inr (Some info) \<Rightarrow>
          process_loop (m\<lparr> positions := (positions m)(pos_coin pos \<mapsto> info) \<rparr>) ch_state rest)"

text \<open>
  \<^verbatim>\<open>process_position_data\<close>, lines 65-153. The two early returns (lines 67-74) leave
  \<^verbatim>\<open>self.positions\<close> as it was; otherwise it is emptied (line 77) before the loop.
\<close>

definition process_position_data :: "monitor \<Rightarrow> py_error option \<times> monitor" where
  "process_position_data m =
     (case latest_state m of
        None \<Rightarrow> (None, m)
      | Some st \<Rightarrow>
          (case clearinghouseState st of
             None \<Rightarrow> (None, m)
           | Some ch_state \<Rightarrow>
               process_loop (m\<lparr> positions := Map.empty \<rparr>) ch_state (assetPositions ch_state)))"

text \<open>
  \<^verbatim>\<open>ProtocolDataManager._handle_account_update\<close>, lines 256-260: every account message
  is stored and processed.
\<close>

definition handle_account_update :: "monitor \<Rightarrow> web_data \<Rightarrow> py_error option \<times> monitor" where
  "handle_account_update m msg = process_position_data (update_state m msg)"

text \<open>
  The states the monitor can be in: it starts empty, and the stream handlers call
  \<^verbatim>\<open>update_asset_context\<close> and \<^verbatim>\<open>_handle_account_update\<close> in any order.
\<close>

inductive reachable :: "monitor \<Rightarrow> bool" where
  reach_init: "reachable init_monitor"
| reach_ctx: "reachable m \<Longrightarrow> reachable (snd (update_asset_context m data))"
| reach_state: "reachable m \<Longrightarrow> reachable (update_state m msg)"
| reach_process: "reachable m \<Longrightarrow> reachable (snd (process_position_data m))"

section \<open>DeltaNeutralExecutor (src/strategies/delta_neutral_executor.py)\<close>

text \<open>
  The configuration read in \<^verbatim>\<open>__init__\<close> (lines 25-28), and its values when the
  environment variables are not set.
\<close>

record executor =
  min_profitability :: real
  borrow_perc_of_ltv :: real
  initial_usdc :: real
  swap_percentage :: real

definition default_executor :: executor where
  "default_executor =
     \<lparr> min_profitability = 2, borrow_perc_of_ltv = 0.5, initial_usdc = 1000, swap_percentage = 0.1 \<rparr>"

text \<open>\<^verbatim>\<open>should_execute\<close>, lines 31-35. The call of the logger is its only effect.\<close>

definition should_execute :: "executor \<Rightarrow> real \<Rightarrow> bool" where
  "should_execute self simulated_apy =
     (let min_profitability' = min_profitability self * 100
      in simulated_apy > min_profitability')"

text \<open>
  What \<^verbatim>\<open>market_open\<close> returns: a result that is falsy or whose status is not
  \<^verbatim>\<open>'ok'\<close>, or the list of its statuses, each \<open>True\<close> when it has the key
  \<^verbatim>\<open>"filled"\<close>.
\<close>

datatype order_result = NotOk | Ok "bool list"

text \<open>
  The collaborators of \<^verbatim>\<open>execute_strategy\<close>, as the answers they give in one run.
  Each may raise.
  \<^item> \<open>eth_price\<close>: \<^verbatim>\<open>float(get_eth_price(self.web3))\<close>;
  \<^item> \<open>swap_usdc_to_eth amount min_amount_out\<close>: the swap of \<^verbatim>\<open>src/exchanges/aave.py\<close>,
    lines 837-860; its value here is the amount of ETH, in wei, that the wallet received
    (the WETH balance that the swap unwraps);
  \<^item> \<open>supply_eth\<close>, \<open>borrow_asset\<close>: \<open>None\<close> is a receipt, \<open>Some e\<close> an exception;
  \<^item> \<open>weth_ltv\<close>: \<^verbatim>\<open>float(weth['ltv'])\<close> for the WETH entry of \<^verbatim>\<open>get_reserves_data()\<close>,
    a \<^verbatim>\<open>TypeError\<close> when there is no such entry;
  \<^item> \<open>deposit_usdc_to_hyperliquid\<close>: the transfer and the wait for its receipt;
  \<^item> \<open>user_state i\<close>: the account value that the \<open>i\<close>-th poll reports, 0 when the
    answer has none;
  \<^item> \<open>sz_decimals_eth\<close>: \<^verbatim>\<open>sz_decimals["ETH"]\<close> from \<^verbatim>\<open>meta()\<close>;
  \<^item> \<open>market_open sz\<close>: the order.
\<close>

record world =
  eth_price :: "py_error + real"
  swap_usdc_to_eth :: "int \<Rightarrow> int \<Rightarrow> py_error + int"
  supply_eth :: "int \<Rightarrow> py_error option"
  weth_ltv :: "py_error + real"
  borrow_asset :: "int \<Rightarrow> py_error option"
  deposit_usdc_to_hyperliquid :: "real \<Rightarrow> py_error option"
  user_state :: "nat \<Rightarrow> py_error + real"
  sz_decimals_eth :: "py_error + nat"
  market_open :: "real \<Rightarrow> py_error + order_result"

text \<open>The calls a run makes to its collaborators, in order, with their arguments.\<close>

datatype action =
  Swap int int | Supply int | Borrow int | Deposit real | PollBalance nat | Sleep | MarketOpen real

text \<open>Line 40: the amount of USDC to swap, in units of \<open>10 ^ (- 6)\<close>.\<close>

definition usdc_to_swap :: "executor \<Rightarrow> int" where
  "usdc_to_swap self = py_int (initial_usdc self * swap_percentage self * 10 ^ 6)"

text \<open>
  Line 42: the minimum amount of ETH to accept, in wei. The division is one of
  \<^verbatim>\<open>Decimal\<close>, which raises on a zero price.
\<close>

definition min_eth_amount :: "int \<Rightarrow> real \<Rightarrow> py_error + int" where
  "min_eth_amount usdc price =
     (case py_div (of_int usdc / 10 ^ 6) price of
        Inl e \<Rightarrow> Inl e
      | Inr q \<Rightarrow> Inr (py_int (q * 0.995 * 10 ^ 18)))"

text \<open>Lines 64-65: the amount of USDC to borrow.\<close>

definition borrow_amount :: "executor \<Rightarrow> int \<Rightarrow> real \<Rightarrow> real \<Rightarrow> int" where
  "borrow_amount self eth_to_supply price eth_ltv =
     (let eth_value_usd = (of_int eth_to_supply / 10 ^ 18) * price
      in py_int (eth_value_usd * eth_ltv * borrow_perc_of_ltv self * 10 ^ 6))"

text \<open>
  Lines 84-88, the loop \<^verbatim>\<open>for _ in range(max_retries)\<close>: \<open>wait_for_deposit w need n i\<close>
  has \<open>n\<close> iterations left and makes the poll number \<open>i\<close> next. The loop ends at the
  \<^verbatim>\<open>break\<close>, at an exception, or when the iterations are used up; in the last case
  nothing records that the balance never arrived.
\<close>

fun wait_for_deposit :: "world \<Rightarrow> real \<Rightarrow> nat \<Rightarrow> nat \<Rightarrow> py_error option \<times> action list" where
  "wait_for_deposit w need 0 i = (None, [])"
| "wait_for_deposit w need (Suc n) i =
     (case user_state w i of
        Inl e \<Rightarrow> (Some e, [PollBalance i])
      | Inr v \<Rightarrow>
          if v \<ge> need then (None, [PollBalance i])
          else (case wait_for_deposit w need n (Suc i) of
                  (r, t) \<Rightarrow> (r, PollBalance i # Sleep # t)))"

text \<open>Lines 111-119: the first status without \<^verbatim>\<open>"filled"\<close> returns \<^verbatim>\<open>False\<close>.\<close>

fun all_filled :: "bool list \<Rightarrow> bool" where
  "all_filled [] = True"
| "all_filled (s # rest) = (if s then all_filled rest else False)"

text \<open>
  \<^verbatim>\<open>execute_strategy\<close>, lines 37-126, is one method in five numbered parts; each part
  below takes the calls made so far and ends by running the next part. The result is the
  boolean the method returns and the calls it made. Every exception is caught by the
  handler of line 124, which returns \<^verbatim>\<open>False\<close>.
\<close>

text \<open>Part 5, lines 90-122: the short position and the reading of the order's result.\<close>

definition open_short :: "world \<Rightarrow> int \<Rightarrow> action list \<Rightarrow> bool \<times> action list" where
  "open_short w eth_to_supply t =
     (let eth_to_short = of_int eth_to_supply / 10 ^ 18 in
      case sz_decimals_eth w of
        Inl e \<Rightarrow> (False, t)
      | Inr decimals \<Rightarrow>
          (let eth_to_short' = py_round eth_to_short decimals;
               t' = t @ [MarketOpen eth_to_short']
           in case market_open w eth_to_short' of
                Inl e \<Rightarrow> (False, t')
              | Inr order_result \<Rightarrow>
                  (case order_result of
                     NotOk \<Rightarrow> (False, t')
                   | Ok statuses \<Rightarrow> (all_filled statuses, t'))))"

text \<open>
  Part 4, lines 75-88: the deposit and the wait for it, with \<^verbatim>\<open>max_retries = 30\<close>. When
  the loop ends without an exception the method goes on to part 5, whether the loop ended
  at its \<^verbatim>\<open>break\<close> or ran out of iterations.
\<close>

definition deposit_and_wait ::
  "world \<Rightarrow> int \<Rightarrow> int \<Rightarrow> action list \<Rightarrow> bool \<times> action list" where
  "deposit_and_wait w eth_to_supply borrow t =
     (let amount = of_int borrow / 10 ^ 6;
          t' = t @ [Deposit amount]
      in case deposit_usdc_to_hyperliquid w amount of
           Some e \<Rightarrow> (False, t')
         | None \<Rightarrow>
             (let max_retries = 30;
                  waited = wait_for_deposit w amount max_retries 0
              in case fst waited of
                   Some e \<Rightarrow> (False, t' @ snd waited)
                 | None \<Rightarrow> open_short w eth_to_supply (t' @ snd waited)))"

text \<open>Part 3, lines 57-73: the borrow.\<close>

definition borrow_usdc ::
  "executor \<Rightarrow> world \<Rightarrow> int \<Rightarrow> real \<Rightarrow> action list \<Rightarrow> bool \<times> action list" where
  "borrow_usdc self w eth_to_supply price t =
     (case weth_ltv w of
        Inl e \<Rightarrow> (False, t)
      | Inr eth_ltv \<Rightarrow>
          (let borrow = borrow_amount self eth_to_supply price eth_ltv;
               t' = t @ [Borrow borrow]
           in case borrow_asset w borrow of
                Some e \<Rightarrow> (False, t')
              | None \<Rightarrow> deposit_and_wait w eth_to_supply borrow t'))"

text \<open>
  Part 2, lines 51-55: the supply. Line 52 sets \<^verbatim>\<open>eth_to_supply = min_eth_amount\<close>; the
  amount the swap delivered is not an argument, since the method never reads it.
\<close>

definition supply_collateral ::
  "executor \<Rightarrow> world \<Rightarrow> int \<Rightarrow> real \<Rightarrow> action list \<Rightarrow> bool \<times> action list" where
  "supply_collateral self w min_eth price t =
     (let eth_to_supply = min_eth;
          t' = t @ [Supply eth_to_supply]
      in case supply_eth w eth_to_supply of
           Some e \<Rightarrow> (False, t')
         | None \<Rightarrow> borrow_usdc self w eth_to_supply price t')"

text \<open>Part 1, lines 39-49, and the whole method.\<close>

definition execute_strategy :: "executor \<Rightarrow> world \<Rightarrow> bool \<times> action list" where
  "execute_strategy self w =
     (let usdc = usdc_to_swap self in
      case eth_price w of
        Inl e \<Rightarrow> (False, [])
      | Inr price \<Rightarrow>
          (case min_eth_amount usdc price of
             Inl e \<Rightarrow> (False, [])
           | Inr min_eth \<Rightarrow>
               (let t = [Swap usdc min_eth]
                in case swap_usdc_to_eth w usdc min_eth of
                     Inl e \<Rightarrow> (False, t)
                   | Inr received \<Rightarrow> supply_collateral self w min_eth price t)))"

text \<open>
  A run is completed when its last call is the order of part 5 and the exchange answered
  that order with status \<^verbatim>\<open>'ok'\<close> and only filled statuses.
\<close>

definition completed :: "world \<Rightarrow> action list \<Rightarrow> bool" where
  "completed w t =
     (case rev t of
        MarketOpen sz # before \<Rightarrow>
          (case market_open w sz of Inr (Ok statuses) \<Rightarrow> all_filled statuses | _ \<Rightarrow> False)
      | _ \<Rightarrow> False)"

section \<open>Example inputs\<close>

text \<open>
  An account with a long ETH position, a short BTC position and a closed SOL position
  whose entry carries nothing but its coin and size.
\<close>

definition eth_position :: raw_position where
  "eth_position =
     \<lparr> pos_coin = Some ''ETH'', szi = Given 2, positionValue = Given 6200,
       entryPx = Given 3000, maxLeverage = Given 20, liquidationPx = Given (Some 2500),
       leverage_value = Given 5, unrealizedPnl = Given 200,
       cumFunding_allTime = Given 12, cumFunding_sinceOpen = Given 10,
       cumFunding_sinceChange = Given 3 \<rparr>"

definition btc_position :: raw_position where
  "btc_position =
     \<lparr> pos_coin = Some ''BTC'', szi = Given (- 1), positionValue = Given 61000,
       entryPx = Given 60000, maxLeverage = Given 40, liquidationPx = Given None,
       leverage_value = Given 10, unrealizedPnl = Given (- 1000),
       cumFunding_allTime = Given 5, cumFunding_sinceOpen = Given (- 4),
       cumFunding_sinceChange = Given 1 \<rparr>"

definition sol_position :: raw_position where
  "sol_position =
     \<lparr> pos_coin = Some ''SOL'', szi = Given 0, positionValue = Absent,
       entryPx = Absent, maxLeverage = Absent, liquidationPx = Absent,
       leverage_value = Absent, unrealizedPnl = Absent,
       cumFunding_allTime = Absent, cumFunding_sinceOpen = Absent,
       cumFunding_sinceChange = Absent \<rparr>"

definition example_ch_state :: clearinghouse_state where
  "example_ch_state =
     \<lparr> assetPositions = [Some eth_position, Some sol_position, None, Some btc_position],
       accountValue = Given 10000 \<rparr>"

definition example_msg :: web_data where
  "example_msg = \<lparr> clearinghouseState = Some example_ch_state \<rparr>"

definition example_monitor :: monitor where
  "example_monitor =
     \<lparr> latest_state = Some example_msg,
       asset_contexts =
         [''ETH'' \<mapsto> \<lparr> ctx_funding = 1 / 80000, ctx_markPx = 3100 \<rparr>,
          ''BTC'' \<mapsto> \<lparr> ctx_funding = 1 / 100000, ctx_markPx = 61000 \<rparr>],
       positions = Map.empty \<rparr>"

text \<open>
  A run in which every collaborator answers: ETH at 2500, a swap that delivers
  \<open>2 * 10 ^ 14\<close> wei more than the minimum asked for, a WETH loan-to-value of 0.75, a
  balance of 100 on the exchange at the first poll, four decimals for the size of an ETH
  order, and an order that is filled.
\<close>

definition example_world :: world where
  "example_world =
     \<lparr> eth_price = Inr 2500,
       swap_usdc_to_eth = (\<lambda>amount min_amount_out. Inr (min_amount_out + 200000000000000)),
       supply_eth = (\<lambda>amount. None),
       weth_ltv = Inr 0.75,
       borrow_asset = (\<lambda>amount. None),
       deposit_usdc_to_hyperliquid = (\<lambda>amount. None),
       user_state = (\<lambda>i. Inr 100),
       sz_decimals_eth = Inr 4,
       market_open = (\<lambda>sz. Inr (Ok [True])) \<rparr>"

text \<open>The same run, but the deposit never shows on the exchange: every poll reports 0.\<close>

definition unfunded_world :: world where
  "unfunded_world = example_world\<lparr> user_state := (\<lambda>i. Inr 0) \<rparr>"

text \<open>The same run, but the price oracle raises: nothing has been sent yet.\<close>

definition no_price_world :: world where
  "no_price_world = example_world\<lparr> eth_price := Inl CollaboratorError \<rparr>"

text \<open>The same run, but the borrow raises, after the swap and the supply went through.\<close>

definition borrow_fails_world :: world where
  "borrow_fails_world = example_world\<lparr> borrow_asset := (\<lambda>amount. Some CollaboratorError) \<rparr>"

section \<open>Results on PositionCalculator\<close>

text \<open>
  Claim C1, as the code has it. With \<^verbatim>\<open>compound=False\<close> the function does not return
  \<open>rate * payments_per_year\<close> but that product times 100: line 61 converts every result
  to a percentage. No input makes the \<^verbatim>\<open>try\<close> fail on this branch.
\<close>

theorem calculate_apy_simple:
  "calculate_apy rate n False = rate * of_int n * 100"
  by (simp add: calculate_apy_def calculate_apy_body_def)

text \<open>
  Claim C1 as the specification words it fails: for a rate of 1 paid once a year the
  function returns 100, not 1.
\<close>

theorem calculate_apy_simple_counterexample:
  "calculate_apy 1 1 False \<noteq> 1 * of_int 1"
  by (simp add: calculate_apy_def calculate_apy_body_def)

text \<open>
  Claim C7. For every account value, position value and warning threshold, and every
  maximum leverage other than 0 (where line 74 divides by it), the liquidation check
  returns a result in which the maintenance margin is \<open>(1 / max_leverage) * 0.5\<close>, the
  liquidation threshold is that margin times the position value, \<open>margin_buffer\<close> is the
  account value minus the threshold, \<open>buffer_percentage\<close> is
  \<open>margin_buffer / threshold * 100\<close> when the threshold is positive and infinite otherwise,
  and \<open>is_near\<close> holds exactly when \<open>buffer_percentage\<close> is below the warning threshold,
  which is 10 when the caller passes none.
\<close>

theorem is_near_liquidation_formulas:
  assumes "max_lev \<noteq> 0"
  shows "\<exists>r. is_near_liquidation av total_usd max_lev w = Inr r
           \<and> maintenance_margin r = (1 / of_int max_lev) * 0.5
           \<and> liquidation_threshold r = maintenance_margin r * total_usd
           \<and> margin_buffer r = av - liquidation_threshold r
           \<and> buffer_percentage r =
               (if liquidation_threshold r > 0
                then Fin (margin_buffer r / liquidation_threshold r * 100) else PosInf)
           \<and> is_near r = pyfloat_less (buffer_percentage r) (with_default w 10)"
  using assms
  by (simp add: is_near_liquidation_def calculate_liquidation_threshold_def
      calculate_maintenance_margin_def py_div_def Let_def)

text \<open>
  The check at a leverage of 20 and a position of 6200, so a threshold of 155: an account
  of 10000 is far from it (default warning threshold), an account of 160 is within 10
  per cent of it.
\<close>

theorem is_near_liquidation_formulas_witness:
  "(20::int) \<noteq> 0 \<and>
   (\<exists>r. is_near_liquidation 10000 6200 20 None = Inr r
      \<and> liquidation_threshold r = 155 \<and> margin_buffer r = 9845
      \<and> buffer_percentage r = Fin (9845 / 155 * 100) \<and> \<not> is_near r) \<and>
   (\<exists>r. is_near_liquidation 160 6200 20 (Some 10) = Inr r
      \<and> liquidation_threshold r = 155 \<and> margin_buffer r = 5
      \<and> buffer_percentage r = Fin (5 / 155 * 100) \<and> is_near r)"
proof -
  have nz: "(20::int) \<noteq> 0" by simp
  from is_near_liquidation_formulas[OF nz, of 10000 6200 None]
  obtain r where r: "is_near_liquidation 10000 6200 20 None = Inr r"
    "maintenance_margin r = (1 / of_int 20) * 0.5"
    "liquidation_threshold r = maintenance_margin r * 6200"
    "margin_buffer r = 10000 - liquidation_threshold r"
    "buffer_percentage r =
       (if liquidation_threshold r > 0
        then Fin (margin_buffer r / liquidation_threshold r * 100) else PosInf)"
    "is_near r = pyfloat_less (buffer_percentage r) (with_default None 10)"
    by blast
  from r(2,3) have lt: "liquidation_threshold r = 155" by simp
  with r(4) have mb: "margin_buffer r = 9845" by simp
  from r(5) lt mb have bp: "buffer_percentage r = Fin (9845 / 155 * 100)" by simp
  from r(6) bp have "\<not> is_near r" by (simp add: with_default_def)
  with r(1) lt mb bp have far: "\<exists>r. is_near_liquidation 10000 6200 20 None = Inr r
      \<and> liquidation_threshold r = 155 \<and> margin_buffer r = 9845
      \<and> buffer_percentage r = Fin (9845 / 155 * 100) \<and> \<not> is_near r" by blast
  from is_near_liquidation_formulas[OF nz, of 160 6200 "Some 10"]
  obtain s where s: "is_near_liquidation 160 6200 20 (Some 10) = Inr s"
    "maintenance_margin s = (1 / of_int 20) * 0.5"
    "liquidation_threshold s = maintenance_margin s * 6200"
    "margin_buffer s = 160 - liquidation_threshold s"
    "buffer_percentage s =
       (if liquidation_threshold s > 0
        then Fin (margin_buffer s / liquidation_threshold s * 100) else PosInf)"
    "is_near s = pyfloat_less (buffer_percentage s) (with_default (Some 10) 10)"
    by blast
  from s(2,3) have lt': "liquidation_threshold s = 155" by simp
  with s(4) have mb': "margin_buffer s = 5" by simp
  from s(5) lt' mb' have bp': "buffer_percentage s = Fin (5 / 155 * 100)" by simp
  from s(6) bp' have "is_near s" by (simp add: with_default_def)
  with s(1) lt' mb' bp' have near: "\<exists>r. is_near_liquidation 160 6200 20 (Some 10) = Inr r
      \<and> liquidation_threshold r = 155 \<and> margin_buffer r = 5
      \<and> buffer_percentage r = Fin (5 / 155 * 100) \<and> is_near r" by blast
  from nz far near show ?thesis by blast
qed

section \<open>Results on PositionMonitor\<close>

lemma and_then_InrE:
  assumes "and_then r f = Inr y"
  obtains v where "r = Inr v" and "f v = Inr y"
  using assms by (cases r) (simp_all add: and_then_def)

lemma required_Inr: "required f = Inr v \<longleftrightarrow> f = Given v"
  by (cases f) (simp_all add: required_def)

lemma get_funding_rate_ctx_only:
  "asset_contexts m = asset_contexts m' \<Longrightarrow> get_funding_rate m c = get_funding_rate m' c"
  by (simp add: get_funding_rate_def split: option.splits)

lemma get_mark_price_ctx_only:
  "asset_contexts m = asset_contexts m' \<Longrightarrow> get_mark_price m c = get_mark_price m' c"
  by (simp add: get_mark_price_def split: option.splits)

lemma process_position_ctx_only:
  assumes "asset_contexts m = asset_contexts m'"
  shows "process_position m ch pos = process_position m' ch pos"
  unfolding process_position_def
    get_funding_rate_ctx_only[OF assms] get_mark_price_ctx_only[OF assms] ..

lemma process_position_stored:
  assumes "process_position m ch pos = Inr (Some p)"
  shows "optional (szi pos) 0 = Inr (size_pos p) \<and>
         size_pos p \<noteq> 0 \<and>
         coin p = pos_coin pos \<and>
         currentRate (funding p) =
           (if size_pos p > 0 then - get_funding_rate m (pos_coin pos)
            else get_funding_rate m (pos_coin pos)) \<and>
         (\<exists>v. cumFunding_sinceOpen pos = Given v \<and> sinceOpen (funding p) = - v)"
  using assms unfolding process_position_def Let_def
  by (elim and_then_InrE) (auto elim!: and_then_InrE simp: required_Inr split: if_splits)

lemma process_loop_reset:
  "(snd (process_loop m ch es))\<lparr> positions := ps \<rparr> = m\<lparr> positions := ps \<rparr>"
proof (induction m ch es rule: process_loop.induct)
  case (1 m ch)
  show ?case by simp
next
  case (2 m ch rest)
  then show ?case by simp
next
  case (3 m ch pos rest)
  show ?case
  proof (cases "process_position m ch pos")
    case (Inl e)
    then show ?thesis by simp
  next
    case (Inr r)
    show ?thesis
    proof (cases r)
      case None
      with Inr 3(1) show ?thesis by simp
    next
      case (Some info)
      with Inr 3(2)[OF Inr Some] show ?thesis by simp
    qed
  qed
qed

lemma process_loop_latest_state:
  "latest_state (snd (process_loop m ch es)) = latest_state m"
  using arg_cong[OF process_loop_reset[where m=m and ch=ch and es=es and ps=Map.empty], of latest_state]
  by simp

lemma process_loop_provenance:
  "positions (snd (process_loop m ch es)) k = Some p \<Longrightarrow>
     positions m k = Some p \<or>
     (\<exists>pos. Some pos \<in> set es \<and> pos_coin pos = k \<and> process_position m ch pos = Inr (Some p))"
proof (induction m ch es rule: process_loop.induct)
  case (1 m ch)
  then show ?case by simp
next
  case (2 m ch rest)
  then show ?case by auto
next
  case (3 m ch pos rest)
  show ?case
  proof (cases "process_position m ch pos")
    case (Inl e)
    with 3(3) show ?thesis by simp
  next
    case (Inr r)
    show ?thesis
    proof (cases r)
      case None
      with Inr 3(3) have "positions (snd (process_loop m ch rest)) k = Some p" by simp
      from 3(1)[OF Inr None this] show ?thesis by auto
    next
      case (Some info)
      let ?m' = "m\<lparr> positions := (positions m)(pos_coin pos \<mapsto> info) \<rparr>"
      have eq: "process_position ?m' ch q = process_position m ch q" for q
        by (rule process_position_ctx_only) simp
      from 3(3) Inr Some have "positions (snd (process_loop ?m' ch rest)) k = Some p" by simp
      from 3(2)[OF Inr Some this]
      have "positions ?m' k = Some p \<or>
        (\<exists>q. Some q \<in> set rest \<and> pos_coin q = k \<and> process_position m ch q = Inr (Some p))"
        unfolding eq .
      then show ?thesis
      proof
        assume a: "positions ?m' k = Some p"
        show ?thesis
        proof (cases "k = pos_coin pos")
          case True
          with a have "info = p" by simp
          with Inr Some True show ?thesis by auto
        next
          case False
          with a show ?thesis by simp
        qed
      next
        assume "\<exists>q. Some q \<in> set rest \<and> pos_coin q = k \<and> process_position m ch q = Inr (Some p)"
        then show ?thesis by auto
      qed
    qed
  qed
qed

text \<open>Every position stored by a run over a snapshot with a clearinghouse state comes from an entry of the snapshot.\<close>

lemma process_position_data_provenance:
  assumes "latest_state m = Some st" and "clearinghouseState st = Some ch"
    and "positions (snd (process_position_data m)) k = Some p"
  shows "\<exists>pos. Some pos \<in> set (assetPositions ch) \<and> pos_coin pos = k \<and>
           process_position m ch pos = Inr (Some p)"
proof -
  let ?m0 = "m\<lparr> positions := Map.empty \<rparr>"
  from assms have "positions (snd (process_loop ?m0 ch (assetPositions ch))) k = Some p"
    by (simp add: process_position_data_def)
  from process_loop_provenance[OF this]
  obtain pos where "Some pos \<in> set (assetPositions ch)" "pos_coin pos = k"
    "process_position ?m0 ch pos = Inr (Some p)" by auto
  moreover have "process_position ?m0 ch pos = process_position m ch pos"
    by (rule process_position_ctx_only) simp
  ultimately show ?thesis by auto
qed

lemma process_position_data_nonzero:
  assumes "\<And>k p. positions m k = Some p \<Longrightarrow> size_pos p \<noteq> 0"
    and "positions (snd (process_position_data m)) k = Some p"
  shows "size_pos p \<noteq> 0"
proof (cases "latest_state m")
  case None
  with assms show ?thesis by (simp add: process_position_data_def)
next
  case (Some st)
  note st = this
  show ?thesis
  proof (cases "clearinghouseState st")
    case None
    with st assms show ?thesis by (simp add: process_position_data_def)
  next
    case (Some ch)
    from process_position_data_provenance[OF st Some assms(2)]
    obtain pos where "process_position m ch pos = Inr (Some p)" by auto
    from process_position_stored[OF this] show ?thesis by simp
  qed
qed

lemma update_asset_context_positions:
  "positions (snd (update_asset_context m data)) = positions m"
  by (simp add: update_asset_context_def split: sum.splits prod.splits)

lemma reachable_nonzero:
  "reachable m \<Longrightarrow> positions m k = Some p \<Longrightarrow> size_pos p \<noteq> 0"
proof (induction arbitrary: k p rule: reachable.induct)
  case reach_init
  then show ?case by (simp add: init_monitor_def)
next
  case (reach_ctx m data)
  then show ?case by (simp add: update_asset_context_positions)
next
  case (reach_state m msg)
  then show ?case by (simp add: update_state_def)
next
  case (reach_process m)
  from process_position_data_nonzero[OF reach_process(2) reach_process(3)]
  show ?case by simp
qed

text \<open>
  Claim C5. In every state the monitor can reach, and for every account message, the
  set of positions after \<^verbatim>\<open>_handle_account_update\<close> holds no \<^verbatim>\<open>PositionInfo\<close> whose size is
  0. A message with a clearinghouse state empties the set and fills it again, leaving out
  every entry whose size is 0 (\<open>process_position_data_provenance\<close>); a message without
  one returns early and keeps the set of the message before, which had the property
  already. The same holds when an exception ends the loop part way.
\<close>
theorem positions_exclude_zero_size:
  assumes "reachable m"
    and "positions (snd (handle_account_update m msg)) k = Some p"
  shows "size_pos p \<noteq> 0"
proof -
  from assms(1) have "reachable (update_state m msg)" by (rule reach_state)
  then have "reachable (snd (handle_account_update m msg))"
    unfolding handle_account_update_def by (rule reach_process)
  from reachable_nonzero[OF this assms(2)] show ?thesis .
qed

text \<open>
  Claim C6. After a run over a snapshot with a clearinghouse state, every stored position
  of positive size has as \<open>currentRate\<close> the negation of the funding rate cached for its
  coin (0 when none is cached), and every stored position of negative size has that rate
  itself.
\<close>
theorem funding_sign_law:
  assumes "latest_state m = Some st" and "clearinghouseState st = Some ch"
    and "positions (snd (process_position_data m)) k = Some p"
  shows "(0 < size_pos p \<longrightarrow> currentRate (funding p) = - get_funding_rate m (coin p)) \<and>
         (size_pos p < 0 \<longrightarrow> currentRate (funding p) = get_funding_rate m (coin p))"
proof -
  from process_position_data_provenance[OF assms]
  obtain pos where "process_position m ch pos = Inr (Some p)" by auto
  from process_position_stored[OF this] show ?thesis by auto
qed

text \<open>
  Claim C10. After a run over a snapshot with a clearinghouse state, every stored position
  comes from a reported position of the same coin and size whose cumulative funding since
  open is some \<open>v\<close>, and its stored \<open>sinceOpen\<close> is \<open>- v\<close>: the negation does not depend
  on the sign of the size.
\<close>
theorem since_open_negated:
  assumes "latest_state m = Some st" and "clearinghouseState st = Some ch"
    and "positions (snd (process_position_data m)) k = Some p"
  shows "\<exists>pos v. Some pos \<in> set (assetPositions ch) \<and> pos_coin pos = k \<and>
           optional (szi pos) 0 = Inr (size_pos p) \<and>
           cumFunding_sinceOpen pos = Given v \<and> sinceOpen (funding p) = - v"
proof -
  from process_position_data_provenance[OF assms]
  obtain pos where pos: "Some pos \<in> set (assetPositions ch)" "pos_coin pos = k"
    "process_position m ch pos = Inr (Some p)" by auto
  from process_position_stored[OF pos(3)] pos(1,2) show ?thesis by blast
qed

text \<open>
  Claim C8. \<^verbatim>\<open>process_position_data\<close> is a function of the monitor's state, and running it
  on the state it has just produced gives the same state and the same outcome again: the
  snapshot and the cached contexts are not changed by a run, and the positions are
  computed from them alone.
\<close>
theorem process_position_data_idempotent:
  "process_position_data (snd (process_position_data m)) = process_position_data m"
proof (cases "latest_state m")
  case None
  then show ?thesis by (simp add: process_position_data_def)
next
  case (Some st)
  note st = this
  show ?thesis
  proof (cases "clearinghouseState st")
    case None
    with st show ?thesis by (simp add: process_position_data_def)
  next
    case (Some ch)
    let ?m0 = "m\<lparr> positions := Map.empty \<rparr>"
    let ?m1 = "snd (process_loop ?m0 ch (assetPositions ch))"
    have pd: "process_position_data m = process_loop ?m0 ch (assetPositions ch)"
      using st Some by (simp add: process_position_data_def)
    have ls: "latest_state ?m1 = Some st"
      using st by (simp add: process_loop_latest_state)
    have "?m1\<lparr> positions := Map.empty \<rparr> = ?m0"
      using process_loop_reset[where m="?m0" and ch=ch and es="assetPositions ch" and ps=Map.empty]
      by simp
    then have "process_position_data ?m1 = process_loop ?m0 ch (assetPositions ch)"
      using ls Some by (simp add: process_position_data_def)
    with pd show ?thesis by simp
  qed
qed


lemma process_eth_position:
  "\<exists>p. process_position m example_ch_state eth_position = Inr (Some p) \<and> size_pos p = 2
        \<and> coin p = Some ''ETH''"
  by (simp add: process_position_def eth_position_def example_ch_state_def and_then_def
      required_def optional_def is_near_liquidation_def calculate_liquidation_threshold_def
      calculate_maintenance_margin_def py_div_def Let_def)

lemma process_btc_position:
  "\<exists>p. process_position m example_ch_state btc_position = Inr (Some p) \<and> size_pos p = - 1
        \<and> coin p = Some ''BTC''"
  by (simp add: process_position_def btc_position_def example_ch_state_def and_then_def
      required_def optional_def is_near_liquidation_def calculate_liquidation_threshold_def
      calculate_maintenance_margin_def py_div_def Let_def)

lemma process_sol_position:
  "process_position m example_ch_state sol_position = Inr None"
  by (simp add: process_position_def sol_position_def and_then_def optional_def)

lemma example_loop:
  "\<exists>pe pb. process_loop m example_ch_state (assetPositions example_ch_state) =
       (None, m\<lparr> positions := (positions m)(Some ''ETH'' \<mapsto> pe, Some ''BTC'' \<mapsto> pb) \<rparr>)
     \<and> size_pos pe = 2 \<and> size_pos pb = - 1 \<and> coin pe = Some ''ETH'' \<and> coin pb = Some ''BTC''"
proof -
  obtain pe where pe: "process_position m example_ch_state eth_position = Inr (Some pe)"
    "size_pos pe = 2" "coin pe = Some ''ETH''" using process_eth_position by blast
  let ?m1 = "m\<lparr> positions := (positions m)(Some ''ETH'' \<mapsto> pe) \<rparr>"
  obtain pb where pb: "process_position ?m1 example_ch_state btc_position = Inr (Some pb)"
    "size_pos pb = - 1" "coin pb = Some ''BTC''" using process_btc_position by blast
  have coins: "pos_coin eth_position = Some ''ETH''" "pos_coin btc_position = Some ''BTC''"
    by (simp_all add: eth_position_def btc_position_def)
  have ap: "assetPositions example_ch_state =
      [Some eth_position, Some sol_position, None, Some btc_position]"
    by (simp add: example_ch_state_def)
  have "process_loop m example_ch_state (assetPositions example_ch_state) =
       (None, m\<lparr> positions := (positions m)(Some ''ETH'' \<mapsto> pe, Some ''BTC'' \<mapsto> pb) \<rparr>)"
    unfolding ap by (simp add: pe(1) pb(1) coins process_sol_position)
  with pe(2,3) pb(2,3) show ?thesis by blast
qed

lemma example_handled:
  "\<exists>pe pb. positions (snd (handle_account_update m example_msg)) =
       [Some ''ETH'' \<mapsto> pe, Some ''BTC'' \<mapsto> pb] \<and> size_pos pe = 2 \<and> size_pos pb = - 1
     \<and> coin pe = Some ''ETH'' \<and> coin pb = Some ''BTC''"
proof -
  let ?m0 = "(update_state m example_msg)\<lparr> positions := Map.empty \<rparr>"
  from example_loop[of ?m0] obtain pe pb where
    run: "process_loop ?m0 example_ch_state (assetPositions example_ch_state) =
       (None, ?m0\<lparr> positions := (positions ?m0)(Some ''ETH'' \<mapsto> pe, Some ''BTC'' \<mapsto> pb) \<rparr>)"
    and sz: "size_pos pe = 2" "size_pos pb = - 1" "coin pe = Some ''ETH''" "coin pb = Some ''BTC''"
    by blast
  have "handle_account_update m example_msg =
      process_loop ?m0 example_ch_state (assetPositions example_ch_state)"
    by (simp add: handle_account_update_def process_position_data_def update_state_def
        example_msg_def)
  then have "positions (snd (handle_account_update m example_msg)) =
       [Some ''ETH'' \<mapsto> pe, Some ''BTC'' \<mapsto> pb]"
    unfolding run by simp
  with sz show ?thesis by blast
qed

text \<open>
  The example account, processed by a fresh monitor: ETH is stored with a size other than
  0, the closed SOL position is not stored.
\<close>

theorem positions_exclude_zero_size_witness:
  "reachable init_monitor \<and>
   (\<exists>p. positions (snd (handle_account_update init_monitor example_msg)) (Some ''ETH'') = Some p
        \<and> size_pos p \<noteq> 0) \<and>
   positions (snd (handle_account_update init_monitor example_msg)) (Some ''SOL'') = None"
proof -
  obtain pe pb where ps: "positions (snd (handle_account_update init_monitor example_msg)) =
       [Some ''ETH'' \<mapsto> pe, Some ''BTC'' \<mapsto> pb]"
    using example_handled by blast
  then have eth: "positions (snd (handle_account_update init_monitor example_msg)) (Some ''ETH'') = Some pe"
    by simp
  from positions_exclude_zero_size[OF reach_init eth] have "size_pos pe \<noteq> 0" .
  with eth ps reach_init show ?thesis by simp
qed


lemma example_processed:
  "\<exists>pe pb. positions (snd (process_position_data example_monitor)) =
       [Some ''ETH'' \<mapsto> pe, Some ''BTC'' \<mapsto> pb] \<and> size_pos pe = 2 \<and> size_pos pb = - 1
     \<and> coin pe = Some ''ETH'' \<and> coin pb = Some ''BTC''"
proof -
  have "update_state example_monitor example_msg = example_monitor"
    by (simp add: update_state_def example_monitor_def)
  then have "handle_account_update example_monitor example_msg =
      process_position_data example_monitor"
    by (simp add: handle_account_update_def)
  with example_handled[of example_monitor] show ?thesis by simp
qed

lemma example_rates:
  "get_funding_rate example_monitor (Some ''ETH'') = 1 / 80000"
  "get_funding_rate example_monitor (Some ''BTC'') = 1 / 100000"
  by (simp_all add: get_funding_rate_def example_monitor_def)

lemma example_state:
  "latest_state example_monitor = Some example_msg"
  "clearinghouseState example_msg = Some example_ch_state"
  by (simp_all add: example_monitor_def example_msg_def)

text \<open>The long ETH position has the negated rate, the short BTC position the rate itself.\<close>

theorem funding_sign_law_witness:
  "latest_state example_monitor = Some example_msg \<and>
   clearinghouseState example_msg = Some example_ch_state \<and>
   (\<exists>p. positions (snd (process_position_data example_monitor)) (Some ''ETH'') = Some p
        \<and> 0 < size_pos p \<and> currentRate (funding p) = - (1 / 80000)) \<and>
   (\<exists>p. positions (snd (process_position_data example_monitor)) (Some ''BTC'') = Some p
        \<and> size_pos p < 0 \<and> currentRate (funding p) = 1 / 100000)"
proof -
  obtain pe pb where ps: "positions (snd (process_position_data example_monitor)) =
       [Some ''ETH'' \<mapsto> pe, Some ''BTC'' \<mapsto> pb]"
    and sz: "size_pos pe = 2" "size_pos pb = - 1"
    and cn: "coin pe = Some ''ETH''" "coin pb = Some ''BTC''"
    using example_processed by blast
  from ps have eth: "positions (snd (process_position_data example_monitor)) (Some ''ETH'') = Some pe"
    and btc: "positions (snd (process_position_data example_monitor)) (Some ''BTC'') = Some pb"
    by simp_all
  from funding_sign_law[OF example_state eth] sz(1) cn(1)
  have "currentRate (funding pe) = - (1 / 80000)" by (simp add: example_rates)
  moreover from funding_sign_law[OF example_state btc] sz(2) cn(2)
  have "currentRate (funding pb) = 1 / 100000" by (simp add: example_rates)
  ultimately show ?thesis using eth btc sz example_state by simp
qed

text \<open>Both the long and the short position store the negation of what the venue reported.\<close>

theorem since_open_negated_witness:
  "latest_state example_monitor = Some example_msg \<and>
   clearinghouseState example_msg = Some example_ch_state \<and>
   cumFunding_sinceOpen eth_position = Given 10 \<and>
   cumFunding_sinceOpen btc_position = Given (- 4) \<and>
   (\<exists>p. positions (snd (process_position_data example_monitor)) (Some ''ETH'') = Some p
        \<and> 0 < size_pos p \<and> sinceOpen (funding p) = - 10) \<and>
   (\<exists>p. positions (snd (process_position_data example_monitor)) (Some ''BTC'') = Some p
        \<and> size_pos p < 0 \<and> sinceOpen (funding p) = 4)"
proof -
  obtain pe pb where ps: "positions (snd (process_position_data example_monitor)) =
       [Some ''ETH'' \<mapsto> pe, Some ''BTC'' \<mapsto> pb]"
    and sz: "size_pos pe = 2" "size_pos pb = - 1"
    using example_processed by blast
  from ps have eth: "positions (snd (process_position_data example_monitor)) (Some ''ETH'') = Some pe"
    and btc: "positions (snd (process_position_data example_monitor)) (Some ''BTC'') = Some pb"
    by simp_all
  have raw: "cumFunding_sinceOpen eth_position = Given 10"
    "cumFunding_sinceOpen btc_position = Given (- 4)"
    by (simp_all add: eth_position_def btc_position_def)
  from since_open_negated[OF example_state eth]
  have "sinceOpen (funding pe) = - 10"
    by (auto simp: example_ch_state_def eth_position_def btc_position_def sol_position_def)
  moreover from since_open_negated[OF example_state btc]
  have "sinceOpen (funding pb) = 4"
    by (auto simp: example_ch_state_def eth_position_def btc_position_def sol_position_def)
  ultimately show ?thesis using eth btc sz example_state raw by simp
qed

section \<open>Results on DeltaNeutralExecutor\<close>

text \<open>
  Claim C9. \<^verbatim>\<open>should_execute\<close> is the comparison
  \<open>simulated_apy > min_profitability * 100\<close> and nothing else: a function of the
  configuration and its argument. With a minimum profitability of 2 it refuses 150 and
  accepts 250.
\<close>

theorem should_execute_comparison:
  "should_execute self simulated_apy = (simulated_apy > min_profitability self * 100)
   \<and> should_execute (self\<lparr> min_profitability := 2 \<rparr>) 150 = False
   \<and> should_execute (self\<lparr> min_profitability := 2 \<rparr>) 250 = True"
  by (simp add: should_execute_def)

text \<open>The amounts of the example run, with the default configuration and ETH at 2500.\<close>

lemma usdc_default: "usdc_to_swap default_executor = 100000000"
  by (simp add: usdc_to_swap_def default_executor_def py_int_def)

lemma min_eth_example: "min_eth_amount 100000000 2500 = Inr 39800000000000000"
  by (simp add: min_eth_amount_def py_div_def py_int_def)

lemma borrow_example:
  "borrow_amount default_executor 39800000000000000 2500 0.75 = 37312500"
  by (simp add: borrow_amount_def default_executor_def py_int_def)

lemma round_example: "py_round (of_int 39800000000000000 / 10 ^ 18) 4 = 398 / 10000"
  by (simp add: py_round_def round_half_even_def)

text \<open>
  The two ways the wait can end without an exception: at once, when the first poll shows
  the balance, and after all its iterations, when no poll ever does.
\<close>

lemma wait_first_poll:
  assumes "user_state w i = Inr v" and "need \<le> v" and "0 < n"
  shows "wait_for_deposit w need n i = (None, [PollBalance i])"
  using assms by (cases n) simp_all

lemma wait_exhausted:
  assumes "\<And>j. user_state w j = Inr v" and "v < need"
  shows "wait_for_deposit w need n i =
           (None, concat (map (\<lambda>j. [PollBalance j, Sleep]) [i..<i + n]))"
proof (induction n arbitrary: i)
  case 0
  show ?case by simp
next
  case (Suc n)
  have "[i..<i + Suc n] = i # [Suc i..<Suc i + n]"
    by (simp add: upt_rec)
  with Suc[of "Suc i"] assms show ?case by simp
qed

lemma example_world_fields:
  "eth_price example_world = Inr 2500"
  "swap_usdc_to_eth example_world a b = Inr (b + 200000000000000)"
  "supply_eth example_world a = None"
  "weth_ltv example_world = Inr 0.75"
  "borrow_asset example_world a = None"
  "deposit_usdc_to_hyperliquid example_world x = None"
  "user_state example_world i = Inr 100"
  "sz_decimals_eth example_world = Inr 4"
  "market_open example_world x = Inr (Ok [True])"
  by (simp_all add: example_world_def)

lemma unfunded_world_fields:
  "eth_price unfunded_world = Inr 2500"
  "swap_usdc_to_eth unfunded_world a b = Inr (b + 200000000000000)"
  "supply_eth unfunded_world a = None"
  "weth_ltv unfunded_world = Inr 0.75"
  "borrow_asset unfunded_world a = None"
  "deposit_usdc_to_hyperliquid unfunded_world x = None"
  "user_state unfunded_world i = Inr 0"
  "sz_decimals_eth unfunded_world = Inr 4"
  "market_open unfunded_world x = Inr (Ok [True])"
  by (simp_all add: unfunded_world_def example_world_def)

lemma open_short_example:
  assumes "market_open w (398 / 10000) = Inr (Ok [True])" and "sz_decimals_eth w = Inr 4"
  shows "open_short w 39800000000000000 t = (True, t @ [MarketOpen (398 / 10000)])"
proof -
  have "open_short w 39800000000000000 t =
      (case market_open w (398 / 10000) of
         Inl e \<Rightarrow> (False, t @ [MarketOpen (398 / 10000)])
       | Inr order_result \<Rightarrow>
           (case order_result of
              NotOk \<Rightarrow> (False, t @ [MarketOpen (398 / 10000)])
            | Ok statuses \<Rightarrow> (all_filled statuses, t @ [MarketOpen (398 / 10000)])))"
    by (simp only: open_short_def Let_def assms(2) sum.case round_example)
  with assms(1) show ?thesis by simp
qed

lemma deposit_and_wait_unfunded:
  "deposit_and_wait unfunded_world 39800000000000000 37312500 t =
     (True, t @ [Deposit (373125 / 10000)]
            @ concat (map (\<lambda>i. [PollBalance i, Sleep]) [0..<30])
            @ [MarketOpen (398 / 10000)])"
proof -
  have amount: "real_of_int 37312500 / 10 ^ 6 = 373125 / 10000" by simp
  have w: "wait_for_deposit unfunded_world (373125 / 10000) 30 0 =
      (None, concat (map (\<lambda>j. [PollBalance j, Sleep]) [0..<0 + 30]))"
    by (rule wait_exhausted[where v=0]) (simp_all add: unfunded_world_fields)
  have os: "open_short unfunded_world 39800000000000000 t' =
      (True, t' @ [MarketOpen (398 / 10000)])" for t'
    by (rule open_short_example) (simp_all only: unfunded_world_fields)
  show ?thesis
    unfolding deposit_and_wait_def Let_def amount w unfunded_world_fields os
    by (simp del: upt.simps)
qed

text \<open>
  Claim C2, evaluated on the code. The deposit never shows on the exchange: all of the 30
  polls report a balance of 0 against a deposit of 37.3125 USDC. The method does not stop
  at part 4: after the last poll it calls \<^verbatim>\<open>market_open\<close> for 0.0398 ETH and, the order
  being filled, returns \<^verbatim>\<open>True\<close>.
\<close>

theorem unfunded_run_opens_short:
  "execute_strategy default_executor unfunded_world =
     (True,
      [Swap 100000000 39800000000000000, Supply 39800000000000000, Borrow 37312500,
       Deposit (373125 / 10000)]
      @ concat (map (\<lambda>i. [PollBalance i, Sleep]) [0..<30])
      @ [MarketOpen (398 / 10000)])"
  unfolding execute_strategy_def supply_collateral_def borrow_usdc_def Let_def
    usdc_default unfunded_world_fields sum.case min_eth_example option.case borrow_example
    deposit_and_wait_unfunded
  by (simp del: upt.simps)


lemma borrow_fails_world_fields:
  "eth_price borrow_fails_world = Inr 2500"
  "swap_usdc_to_eth borrow_fails_world a b = Inr (b + 200000000000000)"
  "supply_eth borrow_fails_world a = None"
  "weth_ltv borrow_fails_world = Inr 0.75"
  "borrow_asset borrow_fails_world a = Some CollaboratorError"
  by (simp_all add: borrow_fails_world_def example_world_def)

lemma deposit_and_wait_example:
  "deposit_and_wait example_world 39800000000000000 37312500 t =
     (True, t @ [Deposit (373125 / 10000), PollBalance 0, MarketOpen (398 / 10000)])"
proof -
  have amount: "real_of_int 37312500 / 10 ^ 6 = 373125 / 10000" by simp
  have w: "wait_for_deposit example_world (373125 / 10000) 30 0 = (None, [PollBalance 0])"
    by (rule wait_first_poll[where v=100]) (simp_all add: example_world_fields)
  have os: "open_short example_world 39800000000000000 t' =
      (True, t' @ [MarketOpen (398 / 10000)])" for t'
    by (rule open_short_example) (simp_all only: example_world_fields)
  show ?thesis
    unfolding deposit_and_wait_def Let_def amount w example_world_fields os
    by simp
qed

lemma example_run:
  "execute_strategy default_executor example_world =
     (True,
      [Swap 100000000 39800000000000000, Supply 39800000000000000, Borrow 37312500,
       Deposit (373125 / 10000), PollBalance 0, MarketOpen (398 / 10000)])"
  unfolding execute_strategy_def supply_collateral_def borrow_usdc_def Let_def
    usdc_default example_world_fields sum.case min_eth_example option.case borrow_example
    deposit_and_wait_example
  by simp

lemma borrow_fails_run:
  "execute_strategy default_executor borrow_fails_world =
     (False, [Swap 100000000 39800000000000000, Supply 39800000000000000, Borrow 37312500])"
  unfolding execute_strategy_def supply_collateral_def borrow_usdc_def Let_def
    usdc_default borrow_fails_world_fields sum.case min_eth_example option.case borrow_example
  by simp

lemma no_price_run:
  "execute_strategy default_executor no_price_world = (False, [])"
  by (simp add: execute_strategy_def no_price_world_def example_world_def)

text \<open>
  Claim C3, evaluated on the code. The swap is asked for at least 39800000000000000 wei
  and delivers 40000000000000000; the amount supplied in part 2 is the minimum asked for,
  not the amount received.
\<close>

theorem supply_uses_minimum_not_received:
  "swap_usdc_to_eth example_world 100000000 39800000000000000 = Inr 40000000000000000 \<and>
   execute_strategy default_executor example_world =
     (True,
      [Swap 100000000 39800000000000000, Supply 39800000000000000, Borrow 37312500,
       Deposit (373125 / 10000), PollBalance 0, MarketOpen (398 / 10000)])"
  using example_run by (simp add: example_world_fields)

text \<open>
  Claim C4 as the specification words it fails. A run whose price oracle raises before
  anything is sent, and a run whose borrow raises after the swap and the supply have gone
  through, both return \<^verbatim>\<open>False\<close>; nothing in the result tells them apart.
\<close>

theorem failures_not_told_apart:
  "execute_strategy default_executor no_price_world = (False, []) \<and>
   swap_usdc_to_eth borrow_fails_world 100000000 39800000000000000 = Inr 40000000000000000 \<and>
   supply_eth borrow_fails_world 39800000000000000 = None \<and>
   execute_strategy default_executor borrow_fails_world =
     (False, [Swap 100000000 39800000000000000, Supply 39800000000000000, Borrow 37312500]) \<and>
   fst (execute_strategy default_executor borrow_fails_world) =
     fst (execute_strategy default_executor no_price_world)"
  using borrow_fails_run no_price_run by (simp add: borrow_fails_world_fields)

text \<open>Each part returns \<^verbatim>\<open>True\<close> only from a completed run.\<close>

lemma open_short_True:
  "fst (open_short w e t) \<Longrightarrow> completed w (snd (open_short w e t))"
  by (auto simp: open_short_def completed_def Let_def split: sum.splits order_result.splits)

lemma deposit_and_wait_True:
  "fst (deposit_and_wait w e b t) \<Longrightarrow> completed w (snd (deposit_and_wait w e b t))"
  by (auto simp: deposit_and_wait_def Let_def open_short_True split: option.splits)

lemma borrow_usdc_True:
  "fst (borrow_usdc self w e p t) \<Longrightarrow> completed w (snd (borrow_usdc self w e p t))"
  by (auto simp: borrow_usdc_def Let_def deposit_and_wait_True split: sum.splits option.splits)

lemma supply_collateral_True:
  "fst (supply_collateral self w e p t) \<Longrightarrow> completed w (snd (supply_collateral self w e p t))"
  by (auto simp: supply_collateral_def Let_def borrow_usdc_True split: option.splits)

text \<open>
  Claim C4, as the code has it. Whatever the configuration and the collaborators' answers,
  a run that does not complete (it does not end with an order that the exchange accepted
  and filled) returns the boolean \<^verbatim>\<open>False\<close>, whether it stopped before any on-chain part
  or after some of them had succeeded.
\<close>

theorem failure_returns_False:
  assumes "\<not> completed w (snd (execute_strategy self w))"
  shows "fst (execute_strategy self w) = False"
  using assms
  by (auto simp: execute_strategy_def Let_def supply_collateral_True split: sum.splits)

text \<open>The two failing runs above: neither is completed, both return \<^verbatim>\<open>False\<close>.\<close>

theorem failure_returns_False_witness:
  "\<not> completed borrow_fails_world (snd (execute_strategy default_executor borrow_fails_world)) \<and>
   \<not> completed no_price_world (snd (execute_strategy default_executor no_price_world)) \<and>
   fst (execute_strategy default_executor borrow_fails_world) = False \<and>
   fst (execute_strategy default_executor no_price_world) = False"
proof -
  have a: "\<not> completed borrow_fails_world (snd (execute_strategy default_executor borrow_fails_world))"
    by (simp add: borrow_fails_run completed_def)
  have b: "\<not> completed no_price_world (snd (execute_strategy default_executor no_price_world))"
    by (simp add: no_price_run completed_def)
  from failure_returns_False[OF a] failure_returns_False[OF b] a b show ?thesis by simp
qed

end
